theory Spec2Isabelle
  imports Main "HOL-Library.Word" "HOL-Library.Sublist"
begin

section \<open>C values shared by the two tools\<close>

text \<open>
  Both tools are C programs. An \<^verbatim>\<open>int\<close> (also \<^verbatim>\<open>PaError\<close> and \<^verbatim>\<open>PaDeviceIndex\<close>, which
  are typedefs of \<^verbatim>\<open>int\<close>) is a 32-bit word read as two's complement: comparisons are the
  signed ones (\<open><s\<close>, \<open>\<le>s\<close>), \<open>+\<close> wraps around. A \<^verbatim>\<open>char *\<close> that the code passes on is a
  \<open>string\<close> (a list of bytes); where it can be the null pointer it is a \<open>string option\<close>.
\<close>

type_synonym c_int = "32 word"

text \<open>
  What a run does, in order: the calls into the external library or the operating system,
  and the writes to the two output streams. The exit status is the value \<^verbatim>\<open>main\<close> returns.
\<close>

datatype 'c event = Call 'c | Stdout string | Stderr string

record 'c run =
  trace :: "'c event list"
  status :: int

fun stdout_writes :: "'c event list \<Rightarrow> string list" where
  "stdout_writes [] = []"
| "stdout_writes (Stdout s # es) = s # stdout_writes es"
| "stdout_writes (_ # es) = stdout_writes es"

fun stderr_writes :: "'c event list \<Rightarrow> string list" where
  "stderr_writes [] = []"
| "stderr_writes (Stderr s # es) = s # stderr_writes es"
| "stderr_writes (_ # es) = stderr_writes es"

fun calls :: "'c event list \<Rightarrow> 'c list" where
  "calls [] = []"
| "calls (Call c # es) = c # calls es"
| "calls (_ # es) = calls es"

section \<open>Formatted output\<close>

text \<open>
  \<^verbatim>\<open>printf\<close> and \<^verbatim>\<open>fprintf\<close> belong to the C library. The model interprets the format string
  itself, for the part of the language the two sources use: ordinary characters, and
  conversions \<^verbatim>\<open>%d\<close> and \<^verbatim>\<open>%s\<close> with an optional \<^verbatim>\<open>-\<close> flag and an optional minimum field
  width. A field width is a minimum: a value longer than the width is written in full.
  The output stops at a directive outside this part, at a missing or ill-typed argument
  and at a null string (C leaves these undefined).
\<close>

datatype arg = AInt c_int | AStr "string option"

fun dec_nat :: "nat \<Rightarrow> string" where
  "dec_nat n =
     (if n < 10 then [''0123456789'' ! n]
      else dec_nat (n div 10) @ [''0123456789'' ! (n mod 10)])"

declare dec_nat.simps [simp del]

definition dec_int :: "int \<Rightarrow> string" where
  "dec_int k = (if k < 0 then CHR ''-'' # dec_nat (nat (- k)) else dec_nat (nat k))"

definition pad :: "bool \<Rightarrow> nat \<Rightarrow> string \<Rightarrow> string" where
  "pad left w s =
     (if left then s @ replicate (w - length s) CHR '' ''
      else replicate (w - length s) CHR '' '' @ s)"

definition digit_val :: "char \<Rightarrow> nat" where
  "digit_val c = of_char c - 48"

definition convert :: "char \<Rightarrow> bool \<Rightarrow> nat \<Rightarrow> arg list \<Rightarrow> (string \<times> arg list) option" where
  "convert c left w args =
     (if c = CHR ''d'' then
        (case args of AInt k # rest \<Rightarrow> Some (pad left w (dec_int (sint k)), rest) | _ \<Rightarrow> None)
      else if c = CHR ''s'' then
        (case args of AStr (Some s) # rest \<Rightarrow> Some (pad left w s, rest) | _ \<Rightarrow> None)
      else None)"

datatype fstate = Text | Flags bool | Width bool nat

fun vformat :: "fstate \<Rightarrow> string \<Rightarrow> arg list \<Rightarrow> string" where
  "vformat st [] args = []"
| "vformat Text (c # cs) args =
     (if c = CHR ''%'' then vformat (Flags False) cs args else c # vformat Text cs args)"
| "vformat (Flags left) (c # cs) args =
     (if c = CHR ''-'' then vformat (Flags True) cs args
      else if c \<in> set ''123456789'' then vformat (Width left (digit_val c)) cs args
      else (case convert c left 0 args of
              None \<Rightarrow> []
            | Some (s, rest) \<Rightarrow> s @ vformat Text cs rest))"
| "vformat (Width left w) (c # cs) args =
     (if c \<in> set ''0123456789'' then vformat (Width left (10 * w + digit_val c)) cs args
      else (case convert c left w args of
              None \<Rightarrow> []
            | Some (s, rest) \<Rightarrow> s @ vformat Text cs rest))"

definition printf :: "string \<Rightarrow> arg list \<Rightarrow> string" where
  "printf fmt args = vformat Text fmt args"

section \<open>Device Lister (tools/list-audio-devices.c)\<close>

text \<open>
  PortAudio is an external library. The program sees it through six functions, which are
  the fields of \<open>pa_env\<close>: what each returns when the program calls it. Of the two records
  the library hands out, only the fields that the program reads are kept. A null
  \<^verbatim>\<open>PaDeviceInfo *\<close> or \<^verbatim>\<open>PaHostApiInfo *\<close> is \<open>None\<close>. \<^verbatim>\<open>Pa_Terminate\<close> takes no argument and
  its result is ignored, so it appears in the trace only.
\<close>

record PaDeviceInfo =
  name :: string
  hostApi :: c_int
  maxOutputChannels :: c_int

record PaHostApiInfo =
  name :: string

record pa_env =
  Pa_Initialize :: c_int
  Pa_GetDeviceCount :: c_int
  Pa_GetDefaultOutputDevice :: c_int
  Pa_GetDeviceInfo :: "c_int \<Rightarrow> PaDeviceInfo option"
  Pa_GetHostApiInfo :: "c_int \<Rightarrow> PaHostApiInfo option"
  Pa_GetErrorText :: "c_int \<Rightarrow> string"

datatype pa_call =
  Initialize
| GetErrorText c_int
| GetDeviceCount
| GetDefaultOutputDevice
| GetDeviceInfo c_int
| GetHostApiInfo c_int
| Terminate

definition paNoError :: c_int where
  "paNoError = 0"

text \<open>Lines 29 to 32: the line written for device \<open>i\<close>, whose record is \<open>info\<close>.\<close>

definition device_line :: "pa_env \<Rightarrow> c_int \<Rightarrow> c_int \<Rightarrow> PaDeviceInfo \<Rightarrow> string" where
  "device_line env default_out i info =
     (let api_name = (case Pa_GetHostApiInfo env (hostApi info) of
                        Some api \<Rightarrow> PaHostApiInfo.name api
                      | None \<Rightarrow> ''?'');
          marker = (if i = default_out then '' *'' else '''')
      in printf ''%3d  %-40s  [%s]%s\<newline>''
           [AInt i, AStr (Some (PaDeviceInfo.name info)), AStr (Some api_name),
            AStr (Some marker)])"

text \<open>Lines 26 to 32: the body of the loop, which extends the trace \<open>tr\<close>.\<close>

definition list_device ::
  "pa_env \<Rightarrow> c_int \<Rightarrow> c_int \<Rightarrow> pa_call event list \<Rightarrow> pa_call event list" where
  "list_device env default_out i tr =
     (case Pa_GetDeviceInfo env i of
        None \<Rightarrow> tr @ [Call (GetDeviceInfo i)]
      | Some info \<Rightarrow>
          if maxOutputChannels info <s 1 then tr @ [Call (GetDeviceInfo i)]
          else tr @ [Call (GetDeviceInfo i), Call (GetHostApiInfo (hostApi info)),
                     Stdout (device_line env default_out i info)])"

text \<open>Lines 25 to 33: \<^verbatim>\<open>for (int i = 0; i < count; i++)\<close>, entered with the counter at \<open>i\<close>.\<close>

function device_loop ::
  "pa_env \<Rightarrow> c_int \<Rightarrow> c_int \<Rightarrow> c_int \<Rightarrow> pa_call event list \<Rightarrow> pa_call event list" where
  "device_loop env default_out count i tr =
     (if i <s count
      then device_loop env default_out count (i + 1) (list_device env default_out i tr)
      else tr)"
  by pat_completeness auto
termination
proof (relation "measure (\<lambda>(env, default_out, count, i, tr). nat (sint count - sint i))")
  show "wf (measure (\<lambda>(env :: pa_env, default_out :: c_int, count :: c_int, i :: c_int,
                       tr :: pa_call event list). nat (sint count - sint i)))"
    by simp
next
  fix env :: pa_env and default_out count i :: c_int and tr :: "pa_call event list"
  assume "i <s count"
  then have below: "sint i < sint count"
    by (simp add: word_sless_alt)
  have "sint count < 2 ^ 31" and "- (2 ^ 31) \<le> sint i"
    using sint_lt [of count] sint_ge [of i] by simp_all
  with below have "signed_take_bit 31 (sint i + 1) = sint i + 1"
    by (intro signed_take_bit_int_eq_self) auto
  then have "sint (i + 1) = sint i + 1"
    by (simp add: sint_word_ariths)
  with below show "((env, default_out, count, i + 1, list_device env default_out i tr),
              (env, default_out, count, i, tr))
             \<in> measure (\<lambda>(env, default_out, count, i, tr). nat (sint count - sint i))"
    by simp
qed

declare device_loop.simps [simp del]

text \<open>Lines 8 to 37: \<^verbatim>\<open>main\<close>.\<close>

definition list_audio_devices_main :: "pa_env \<Rightarrow> pa_call run" where
  "list_audio_devices_main env =
     (let err = Pa_Initialize env in
      if err \<noteq> paNoError then
        \<lparr>trace = [Call Initialize, Call (GetErrorText err),
                  Stderr (printf ''PortAudio init failed: %s\<newline>''
                            [AStr (Some (Pa_GetErrorText env err))])],
         status = 1\<rparr>
      else
        let count = Pa_GetDeviceCount env in
        if count <s 0 then
          \<lparr>trace = [Call Initialize, Call GetDeviceCount, Call (GetErrorText count),
                    Stderr (printf ''PortAudio error: %s\<newline>''
                              [AStr (Some (Pa_GetErrorText env count))]),
                    Call Terminate],
           status = 1\<rparr>
        else
          let default_out = Pa_GetDefaultOutputDevice env;
              tr = device_loop env default_out count 0
                     [Call Initialize, Call GetDeviceCount, Call GetDefaultOutputDevice]
          in \<lparr>trace = tr @ [Call Terminate], status = 0\<rparr>)"

section \<open>Semaphore Unlinker (tools/sem\_unlink.c)\<close>

text \<open>
  The operating system is seen through \<^verbatim>\<open>sem_unlink\<close>: what it returns for a name, and the
  \<^verbatim>\<open>errno\<close> it leaves when it fails. \<^verbatim>\<open>strerror\<close> is the C library's table of error texts,
  which \<^verbatim>\<open>perror\<close> reads. \<open>argv\<close> holds the program name and the arguments, so \<^verbatim>\<open>argc\<close> is
  its length, and \<^verbatim>\<open>argv[argc]\<close> is the null pointer.
\<close>

record sem_os =
  sem_unlink :: "string \<Rightarrow> c_int"
  errno :: "string \<Rightarrow> c_int"
  strerror :: "c_int \<Rightarrow> string"

datatype sem_call = SemUnlink string

definition argv_at :: "string list \<Rightarrow> nat \<Rightarrow> string option" where
  "argv_at argv k = (if k < length argv then Some (argv ! k) else None)"

text \<open>\<^verbatim>\<open>perror(s)\<close>: the text \<open>s\<close>, a colon and a space, the text of \<^verbatim>\<open>errno\<close>, a newline.\<close>

definition perror :: "sem_os \<Rightarrow> c_int \<Rightarrow> string \<Rightarrow> string" where
  "perror os e s = (if s = [] then [] else s @ '': '') @ strerror os e @ ''\<newline>''"

text \<open>Lines 8 to 22: \<^verbatim>\<open>main\<close>.\<close>

definition sem_unlink_main :: "sem_os \<Rightarrow> string list \<Rightarrow> sem_call run" where
  "sem_unlink_main os argv =
     (if length argv \<noteq> 2 then
        \<lparr>trace = [Stderr (printf ''Usage: %s /name\<newline>'' [AStr (argv_at argv 0)])],
         status = 1\<rparr>
      else if sem_unlink os (argv ! 1) \<noteq> 0 then
        \<lparr>trace = [Call (SemUnlink (argv ! 1)),
                  Stderr (perror os (errno os (argv ! 1)) ''sem_unlink'')],
         status = 1\<rparr>
      else
        \<lparr>trace = [Call (SemUnlink (argv ! 1)),
                  Stdout (printf ''Unlinked semaphore %s\<newline>'' [AStr (Some (argv ! 1))])],
         status = 0\<rparr>)"

section \<open>What the specification says, and the runs used as examples\<close>

text \<open>
  The device indices that the loop visits: \<open>0\<close> up to, but excluding, the device count.
\<close>

definition device_indices :: "c_int \<Rightarrow> c_int list" where
  "device_indices count = map word_of_int [0 .. sint count - 1]"

text \<open>
  The specification's condition for a line: the descriptive record of the device is
  available and its maximum output channel count is at least 1.
\<close>

definition output_capable :: "pa_env \<Rightarrow> c_int \<Rightarrow> bool" where
  "output_capable env i =
     (case Pa_GetDeviceInfo env i of
        None \<Rightarrow> False
      | Some info \<Rightarrow> 1 \<le>s maxOutputChannels info)"

definition printed_indices :: "pa_env \<Rightarrow> c_int list" where
  "printed_indices env = filter (output_capable env) (device_indices (Pa_GetDeviceCount env))"

text \<open>The line of device \<open>i\<close>, as the code formats it from the record the library returns.\<close>

definition line_for :: "pa_env \<Rightarrow> c_int \<Rightarrow> string" where
  "line_for env i =
     (case Pa_GetDeviceInfo env i of
        None \<Rightarrow> []
      | Some info \<Rightarrow> device_line env (Pa_GetDefaultOutputDevice env) i info)"

text \<open>A line carries the marker when it ends with a space and an asterisk, before its newline.\<close>

definition ends_with_marker :: "string \<Rightarrow> bool" where
  "ends_with_marker l = suffix '' *\<newline>'' l"

text \<open>
  The line format in the specification's words: the index right-aligned and padded to 3
  characters, two spaces, the device name left-aligned and padded or truncated to exactly
  40 characters, two spaces, the host-API name in square brackets, the optional marker, a
  newline.
\<close>

definition spec_line :: "c_int \<Rightarrow> string \<Rightarrow> string \<Rightarrow> bool \<Rightarrow> string" where
  "spec_line i dev_name api_name is_default =
     replicate (3 - length (dec_int (sint i))) CHR '' '' @ dec_int (sint i) @ ''  '' @
     take 40 (dev_name @ replicate (40 - length dev_name) CHR '' '') @ ''  '' @
     ''['' @ api_name @ '']'' @ (if is_default then '' *'' else []) @ ''\<newline>''"

text \<open>
  The format that the code produces: as \<open>spec_line\<close>, but the device name is padded to at
  least 40 characters and never cut.
\<close>

definition code_line :: "c_int \<Rightarrow> string \<Rightarrow> string \<Rightarrow> bool \<Rightarrow> string" where
  "code_line i dev_name api_name is_default =
     replicate (3 - length (dec_int (sint i))) CHR '' '' @ dec_int (sint i) @ ''  '' @
     dev_name @ replicate (40 - length dev_name) CHR '' '' @ ''  '' @
     ''['' @ api_name @ '']'' @ (if is_default then '' *'' else []) @ ''\<newline>''"

text \<open>The name between the brackets: the host API's, or the placeholder.\<close>

definition host_api_name :: "pa_env \<Rightarrow> PaDeviceInfo \<Rightarrow> string" where
  "host_api_name env info =
     (case Pa_GetHostApiInfo env (hostApi info) of
        None \<Rightarrow> ''?''
      | Some api \<Rightarrow> PaHostApiInfo.name api)"

text \<open>
  A library with two devices: an output device at index 0, which is the default, and an
  input-only device at index 1.
\<close>

definition demo_env :: pa_env where
  "demo_env =
     \<lparr>Pa_Initialize = 0, Pa_GetDeviceCount = 2, Pa_GetDefaultOutputDevice = 0,
      Pa_GetDeviceInfo = (\<lambda>i.
        if i = 0 then
          Some \<lparr>PaDeviceInfo.name = ''Speakers'', hostApi = 0, maxOutputChannels = 2\<rparr>
        else if i = 1 then
          Some \<lparr>PaDeviceInfo.name = ''Microphone'', hostApi = 0, maxOutputChannels = 0\<rparr>
        else None),
      Pa_GetHostApiInfo = (\<lambda>h.
        if h = 0 then Some \<lparr>PaHostApiInfo.name = ''Core Audio''\<rparr> else None),
      Pa_GetErrorText = (\<lambda>e.
        if e = - 10000 then ''PortAudio not initialized'' else ''Unanticipated host error'')\<rparr>"

text \<open>
  Three devices: the second has no record; the third is the default, has a name of 42
  characters and a host API that the library does not know.
\<close>

definition studio_env :: pa_env where
  "studio_env =
     \<lparr>Pa_Initialize = 0, Pa_GetDeviceCount = 3, Pa_GetDefaultOutputDevice = 2,
      Pa_GetDeviceInfo = (\<lambda>i.
        if i = 0 then
          Some \<lparr>PaDeviceInfo.name = ''Speakers'', hostApi = 0, maxOutputChannels = 2\<rparr>
        else if i = 2 then
          Some \<lparr>PaDeviceInfo.name = ''USB Audio Interface Professional Edition 2'',
                hostApi = 7, maxOutputChannels = 8\<rparr>
        else None),
      Pa_GetHostApiInfo = (\<lambda>h.
        if h = 0 then Some \<lparr>PaHostApiInfo.name = ''Core Audio''\<rparr> else None),
      Pa_GetErrorText = (\<lambda>e.
        if e = - 10000 then ''PortAudio not initialized'' else ''Unanticipated host error'')\<rparr>"

text \<open>The library fails to start, or starts and then fails to count its devices.\<close>

definition init_fail_env :: pa_env where
  "init_fail_env = demo_env\<lparr>Pa_Initialize := - 9999\<rparr>"

definition count_fail_env :: pa_env where
  "count_fail_env = demo_env\<lparr>Pa_GetDeviceCount := - 10000\<rparr>"

text \<open>
  An operating system on which only the semaphore \<^verbatim>\<open>/test\<close> exists: removing any other name
  fails with \<^verbatim>\<open>ENOENT\<close> (2).
\<close>

definition demo_os :: sem_os where
  "demo_os =
     \<lparr>sem_unlink = (\<lambda>n. if n = ''/test'' then 0 else - 1),
      errno = (\<lambda>n. if n = ''/test'' then 0 else 2),
      strerror = (\<lambda>e. if e = 2 then ''No such file or directory'' else ''Unknown error'')\<rparr>"

section \<open>The loop of the Device Lister\<close>

text \<open>If the counter is below some \<^verbatim>\<open>int\<close>, then \<^verbatim>\<open>i++\<close> does not overflow.\<close>

lemma sint_succ:
  fixes i count :: c_int
  assumes "i <s count"
  shows "sint (i + 1) = sint i + 1"
proof -
  have "sint i < sint count"
    using assms by (simp add: word_sless_alt)
  moreover have "sint count < 2 ^ 31"
    using sint_lt [of count] by simp
  moreover have "- (2 ^ 31) \<le> sint i"
    using sint_ge [of i] by simp
  ultimately have "signed_take_bit 31 (sint i + 1) = sint i + 1"
    by (intro signed_take_bit_int_eq_self) auto
  then show ?thesis
    by (simp add: sint_word_ariths)
qed

lemma list_device_append:
  "list_device env d i tr = tr @ list_device env d i []"
  by (simp add: list_device_def split: option.split)

lemma device_loop_trace:
  "device_loop env d count i tr =
     tr @ concat (map (\<lambda>j. list_device env d j []) (map word_of_int [sint i .. sint count - 1]))"
proof (induction env d count i tr rule: device_loop.induct)
  case (1 env d count i tr)
  show ?case
  proof (cases "i <s count")
    case True
    then have lt: "sint i < sint count"
      by (simp add: word_sless_alt)
    have up: "[sint i .. sint count - 1] = sint i # [sint (i + 1) .. sint count - 1]"
      using lt sint_succ [OF True] by (simp add: upto_rec1)
    have "device_loop env d count i tr =
            device_loop env d count (i + 1) (list_device env d i tr)"
      using True by (simp add: device_loop.simps [of env d count i tr])
    also have "\<dots> = list_device env d i tr @
        concat (map (\<lambda>j. list_device env d j []) (map word_of_int [sint (i + 1) .. sint count - 1]))"
      using "1.IH" [OF True] .
    also have "\<dots> = tr @ list_device env d i [] @
        concat (map (\<lambda>j. list_device env d j []) (map word_of_int [sint (i + 1) .. sint count - 1]))"
      using list_device_append [of env d i tr] by simp
    finally show ?thesis
      by (simp add: up)
  next
    case False
    then have "sint count - 1 < sint i"
      by (simp add: word_sless_alt)
    then have "[sint i .. sint count - 1] = []"
      by simp
    with False show ?thesis
      by (simp add: device_loop.simps [of env d count i tr])
  qed
qed

lemma stdout_writes_append:
  "stdout_writes (xs @ ys) = stdout_writes xs @ stdout_writes ys"
  by (induction xs rule: stdout_writes.induct) simp_all

lemma stdout_writes_concat:
  "stdout_writes (concat (map f xs)) = concat (map (\<lambda>x. stdout_writes (f x)) xs)"
  by (induction xs) (simp_all add: stdout_writes_append)

lemma stderr_writes_append:
  "stderr_writes (xs @ ys) = stderr_writes xs @ stderr_writes ys"
  by (induction xs rule: stderr_writes.induct) simp_all

lemma stderr_writes_concat:
  "stderr_writes (concat (map f xs)) = concat (map (\<lambda>x. stderr_writes (f x)) xs)"
  by (induction xs) (simp_all add: stderr_writes_append)

lemma stdout_list_device:
  "stdout_writes (list_device env (Pa_GetDefaultOutputDevice env) i []) =
     (if output_capable env i then [line_for env i] else [])"
  by (simp add: list_device_def output_capable_def line_for_def word_sle_eq word_sless_alt
      split: option.split)

lemma stderr_list_device: "stderr_writes (list_device env d i []) = []"
  by (simp add: list_device_def split: option.split)

lemma concat_map_if:
  "concat (map (\<lambda>x. if P x then [f x] else []) xs) = map f (filter P xs)"
  by (induction xs) simp_all

lemma main_run:
  assumes "Pa_Initialize env = paNoError" and "\<not> Pa_GetDeviceCount env <s 0"
  shows "list_audio_devices_main env =
    \<lparr>trace = [Call Initialize, Call GetDeviceCount, Call GetDefaultOutputDevice] @
       concat (map (\<lambda>j. list_device env (Pa_GetDefaultOutputDevice env) j [])
                 (device_indices (Pa_GetDeviceCount env))) @ [Call Terminate],
     status = 0\<rparr>"
  using assms
  by (simp add: list_audio_devices_main_def Let_def device_loop_trace device_indices_def)

lemma main_stdout:
  assumes "Pa_Initialize env = paNoError"
  shows "stdout_writes (trace (list_audio_devices_main env)) =
           map (line_for env) (printed_indices env)"
proof (cases "Pa_GetDeviceCount env <s 0")
  case True
  then have "sint (Pa_GetDeviceCount env) - 1 < 0"
    by (simp add: word_sless_alt)
  then have "device_indices (Pa_GetDeviceCount env) = []"
    by (simp add: device_indices_def)
  with assms True show ?thesis
    by (simp add: list_audio_devices_main_def Let_def printed_indices_def)
next
  case False
  show ?thesis
    by (simp add: main_run [OF assms False] stdout_writes_append stdout_writes_concat
        stdout_list_device concat_map_if printed_indices_def)
qed

text \<open>The indices visited are the values from 0 to below the count, each once.\<close>

lemma sint_word_of_int_small:
  assumes "0 \<le> k" and "k < 2 ^ 31"
  shows "sint (word_of_int k :: c_int) = k"
proof -
  have "signed_take_bit 31 k = k"
    using assms by (intro signed_take_bit_int_eq_self) auto
  then show ?thesis
    by (simp add: sint_sbintrunc')
qed

lemma set_device_indices:
  "set (device_indices count) = {i. 0 \<le>s i \<and> i <s count}"
proof (intro set_eqI iffI)
  fix i
  assume "i \<in> set (device_indices count)"
  then obtain k where k: "0 \<le> k" "k \<le> sint count - 1" and i: "i = word_of_int k"
    by (auto simp: device_indices_def)
  have "k < 2 ^ 31"
    using k sint_lt [of count] by simp
  then have "sint i = k"
    using k i by (simp add: sint_word_of_int_small)
  with k show "i \<in> {i. 0 \<le>s i \<and> i <s count}"
    by (simp add: word_sle_eq word_sless_alt)
next
  fix i
  assume "i \<in> {i. 0 \<le>s i \<and> i <s count}"
  then have "sint i \<in> set [0 .. sint count - 1]"
    by (simp add: word_sle_eq word_sless_alt)
  moreover have "i = word_of_int (sint i)"
    by simp
  ultimately have "i \<in> word_of_int ` set [0 .. sint count - 1]"
    by (rule rev_image_eqI)
  then show "i \<in> set (device_indices count)"
    by (simp only: device_indices_def set_map)
qed

lemma distinct_device_indices: "distinct (device_indices count)"
proof -
  have "inj_on (word_of_int :: int \<Rightarrow> c_int) (set [0 .. sint count - 1])"
  proof (rule inj_onI)
    fix x y :: int
    assume x: "x \<in> set [0 .. sint count - 1]" and y: "y \<in> set [0 .. sint count - 1]"
      and eq: "(word_of_int x :: c_int) = word_of_int y"
    have "x < 2 ^ 31" and "0 \<le> x"
      using x sint_lt [of count] by simp_all
    then have sx: "sint (word_of_int x :: c_int) = x"
      by (simp only: sint_word_of_int_small)
    have "y < 2 ^ 31" and "0 \<le> y"
      using y sint_lt [of count] by simp_all
    then have sy: "sint (word_of_int y :: c_int) = y"
      by (simp only: sint_word_of_int_small)
    from eq have "sint (word_of_int x :: c_int) = sint (word_of_int y :: c_int)"
      by (rule arg_cong)
    then show "x = y"
      by (simp only: sx sy)
  qed
  then show ?thesis
    by (simp only: device_indices_def distinct_map distinct_upto simp_thms)
qed

lemma zip_map_self:
  "(i, l) \<in> set (zip xs (map f xs)) \<Longrightarrow> i \<in> set xs \<and> l = f i"
  by (induction xs) auto

lemma device_line_format:
  "device_line env d i info =
     code_line i (PaDeviceInfo.name info) (host_api_name env info) (i = d)"
  by (simp add: device_line_def code_line_def host_api_name_def printf_def convert_def
      digit_val_def pad_def split: option.split)

lemma printed_line:
  assumes "i \<in> set (printed_indices env)"
  shows "\<exists>info. Pa_GetDeviceInfo env i = Some info \<and> 1 \<le>s maxOutputChannels info \<and>
           line_for env i =
             code_line i (PaDeviceInfo.name info) (host_api_name env info)
               (i = Pa_GetDefaultOutputDevice env)"
  using assms
  by (auto simp: printed_indices_def output_capable_def line_for_def device_line_format
      split: option.splits)

lemma no_terminate_in_loop: "Call Terminate \<notin> set (list_device env d i [])"
  by (simp add: list_device_def split: option.split)

lemma main_stderr:
  assumes "Pa_Initialize env = paNoError" and "\<not> Pa_GetDeviceCount env <s 0"
  shows "stderr_writes (trace (list_audio_devices_main env)) = []"
  by (simp add: main_run [OF assms] stderr_writes_append stderr_writes_concat stderr_list_device)

lemma marker_iff:
  "ends_with_marker (code_line i n a b) \<longleftrightarrow> b"
proof (cases b)
  case True
  then show ?thesis
    by (simp add: ends_with_marker_def code_line_def suffix_def)
next
  case False
  have "\<not> suffix '' *\<newline>'' (xs @ '']\<newline>'')" for xs
  proof
    assume "suffix '' *\<newline>'' (xs @ '']\<newline>'')"
    then obtain zs where "xs @ '']\<newline>'' = zs @ '' *\<newline>''"
      by (auto simp: suffix_def)
    then have "(xs @ '']'') @ ''\<newline>'' = ((zs @ '' '') @ ''*'') @ ''\<newline>''"
      by simp
    then have "xs @ '']'' = (zs @ '' '') @ ''*''"
      by (simp only: append1_eq_conv)
    then show False
      by (simp only: append1_eq_conv) simp
  qed
  from this [of "replicate (3 - length (dec_int (sint i))) CHR '' '' @ dec_int (sint i) @ ''  '' @
     n @ replicate (40 - length n) CHR '' '' @ ''  '' @ ''['' @ a"]
  show ?thesis
    using False by (simp add: ends_with_marker_def code_line_def)
qed

lemma main_writes_zip:
  assumes "Pa_Initialize env = paNoError"
    and "(i, l) \<in> set (zip (printed_indices env)
                         (stdout_writes (trace (list_audio_devices_main env))))"
  shows "i \<in> set (printed_indices env) \<and> l = line_for env i"
  using assms(2) unfolding main_stdout [OF assms(1)] by (rule zip_map_self)

lemma code_line_short:
  "length n \<le> 40 \<Longrightarrow> code_line i n a b = spec_line i n a b"
  by (simp add: code_line_def spec_line_def)

lemma count_terminate_loop:
  "count_list (concat (map (\<lambda>j. list_device env d j []) xs)) (Call Terminate) = 0"
  by (simp add: count_list_0_iff no_terminate_in_loop)

section \<open>Device Lister: the claims\<close>

text \<open>
  C1. After a successful initialization, the lines written to stdout are those of the
  indices \<open>i\<close> with \<open>0 \<le> i < count\<close> whose record is available and has at least one
  output channel, one line for each such index and no others. With a count that is not
  negative, nothing is written to stderr and the exit status is 0, whatever indices are
  skipped.
\<close>

theorem lister_filtering:
  assumes "Pa_Initialize env = paNoError"
  shows "stdout_writes (trace (list_audio_devices_main env)) =
           map (line_for env) (printed_indices env) \<and>
         distinct (printed_indices env) \<and>
         (\<forall>i. i \<in> set (printed_indices env) \<longleftrightarrow>
            0 \<le>s i \<and> i <s Pa_GetDeviceCount env \<and>
            (\<exists>info. Pa_GetDeviceInfo env i = Some info \<and> 1 \<le>s maxOutputChannels info)) \<and>
         (\<not> Pa_GetDeviceCount env <s 0 \<longrightarrow>
            stderr_writes (trace (list_audio_devices_main env)) = [] \<and>
            status (list_audio_devices_main env) = 0)"
proof (intro conjI allI impI)
  show "stdout_writes (trace (list_audio_devices_main env)) =
          map (line_for env) (printed_indices env)"
    using assms by (rule main_stdout)
  show "distinct (printed_indices env)"
    by (simp add: printed_indices_def distinct_device_indices)
  show "i \<in> set (printed_indices env) \<longleftrightarrow>
          0 \<le>s i \<and> i <s Pa_GetDeviceCount env \<and>
          (\<exists>info. Pa_GetDeviceInfo env i = Some info \<and> 1 \<le>s maxOutputChannels info)" for i
    by (auto simp: printed_indices_def set_device_indices output_capable_def
        split: option.splits)
next
  assume "\<not> Pa_GetDeviceCount env <s 0"
  with assms show "stderr_writes (trace (list_audio_devices_main env)) = []"
    by (rule main_stderr)
next
  assume "\<not> Pa_GetDeviceCount env <s 0"
  with assms show "status (list_audio_devices_main env) = 0"
    by (simp add: main_run)
qed

text \<open>The library \<open>demo_env\<close>: one line, for index 0.\<close>

theorem lister_filtering_witness:
  "Pa_Initialize demo_env = paNoError \<and>
   printed_indices demo_env = [0] \<and>
   stdout_writes (trace (list_audio_devices_main demo_env)) =
     [''  0  Speakers                                  [Core Audio] *\<newline>''] \<and>
   stderr_writes (trace (list_audio_devices_main demo_env)) = [] \<and>
   status (list_audio_devices_main demo_env) = 0"
proof -
  have init: "Pa_Initialize demo_env = paNoError"
    by (simp add: demo_env_def paNoError_def)
  have count: "\<not> Pa_GetDeviceCount demo_env <s 0"
    by (simp add: demo_env_def word_sless_alt)
  have printed: "printed_indices demo_env = [0]"
    by code_simp
  have line: "line_for demo_env 0 =
      ''  0  Speakers                                  [Core Audio] *\<newline>''"
    by code_simp
  show ?thesis
    using lister_filtering [OF init] init count printed line by simp
qed

text \<open>
  C2. After a successful initialization, pair each printed index with its line, in the
  order written. A line ends with a space and an asterisk (before its newline) exactly
  when its index equals the default output device index that the library reports; every
  other line has no such ending.
\<close>

theorem lister_default_marker:
  assumes "Pa_Initialize env = paNoError"
  shows "length (stdout_writes (trace (list_audio_devices_main env))) =
           length (printed_indices env) \<and>
         (\<forall>(i, l) \<in> set (zip (printed_indices env)
                            (stdout_writes (trace (list_audio_devices_main env)))).
            ends_with_marker l \<longleftrightarrow> i = Pa_GetDefaultOutputDevice env)"
proof (intro conjI ballI)
  show "length (stdout_writes (trace (list_audio_devices_main env))) =
          length (printed_indices env)"
    by (simp add: main_stdout [OF assms])
next
  fix p
  assume p: "p \<in> set (zip (printed_indices env)
                         (stdout_writes (trace (list_audio_devices_main env))))"
  obtain i l where il: "p = (i, l)"
    by (cases p)
  from p il main_writes_zip [OF assms, of i l]
  have i: "i \<in> set (printed_indices env)" and l: "l = line_for env i"
    by simp_all
  from printed_line [OF i] l
  have "ends_with_marker l \<longleftrightarrow> i = Pa_GetDefaultOutputDevice env"
    by (auto simp: marker_iff)
  then show "case p of (i, l) \<Rightarrow> ends_with_marker l \<longleftrightarrow> i = Pa_GetDefaultOutputDevice env"
    by (simp add: il)
qed

text \<open>The library \<open>studio_env\<close>: two lines, and only that of the default device, 2, has the marker.\<close>

theorem lister_default_marker_witness:
  "Pa_Initialize studio_env = paNoError \<and>
   zip (printed_indices studio_env)
       (stdout_writes (trace (list_audio_devices_main studio_env))) =
     [(0, ''  0  Speakers                                  [Core Audio]\<newline>''),
      (2, ''  2  USB Audio Interface Professional Edition 2  [?] *\<newline>'')] \<and>
   Pa_GetDefaultOutputDevice studio_env = 2 \<and>
   \<not> ends_with_marker ''  0  Speakers                                  [Core Audio]\<newline>'' \<and>
   ends_with_marker ''  2  USB Audio Interface Professional Edition 2  [?] *\<newline>''"
proof -
  have init: "Pa_Initialize studio_env = paNoError"
    by (simp add: studio_env_def paNoError_def)
  have dflt: "Pa_GetDefaultOutputDevice studio_env = 2"
    by (simp add: studio_env_def)
  have z: "zip (printed_indices studio_env)
       (stdout_writes (trace (list_audio_devices_main studio_env))) =
     [(0, ''  0  Speakers                                  [Core Audio]\<newline>''),
      (2, ''  2  USB Audio Interface Professional Edition 2  [?] *\<newline>'')]"
    by code_simp
  show ?thesis
    using lister_default_marker [OF init] init dflt z by simp
qed

text \<open>
  C3 as stated requires the name field to be exactly 40 characters also for longer names.
  The library \<open>studio_env\<close> has a device at index 2 whose name has 42 characters: the line
  written holds the whole name, while the stated format would cut it after 40.
\<close>

theorem lister_line_format_counterexample:
  "stdout_writes (trace (list_audio_devices_main studio_env)) ! 1 =
     ''  2  USB Audio Interface Professional Edition 2  [?] *\<newline>'' \<and>
   spec_line 2 ''USB Audio Interface Professional Edition 2'' ''?'' True =
     ''  2  USB Audio Interface Professional Edition  [?] *\<newline>'' \<and>
   stdout_writes (trace (list_audio_devices_main studio_env)) ! 1 \<noteq>
     spec_line 2 ''USB Audio Interface Professional Edition 2'' ''?'' True"
  by code_simp

text \<open>
  C3, amended. Every printed line is: the index right-aligned in a field of at least 3
  characters, two spaces, the device name left-aligned and padded with spaces to at least
  40 characters (a longer name is written in full, never cut), two spaces, the host-API
  name in square brackets, the optional marker, a newline. For a name of at most 40
  characters this is the stated format.
\<close>

theorem lister_line_format:
  assumes "Pa_Initialize env = paNoError"
  shows "length (stdout_writes (trace (list_audio_devices_main env))) =
           length (printed_indices env) \<and>
         (\<forall>(i, l) \<in> set (zip (printed_indices env)
                            (stdout_writes (trace (list_audio_devices_main env)))).
            \<exists>info. Pa_GetDeviceInfo env i = Some info \<and>
              l = code_line i (PaDeviceInfo.name info) (host_api_name env info)
                    (i = Pa_GetDefaultOutputDevice env) \<and>
              (length (PaDeviceInfo.name info) \<le> 40 \<longrightarrow>
                 l = spec_line i (PaDeviceInfo.name info) (host_api_name env info)
                       (i = Pa_GetDefaultOutputDevice env)))"
proof (intro conjI ballI)
  show "length (stdout_writes (trace (list_audio_devices_main env))) =
          length (printed_indices env)"
    by (simp add: main_stdout [OF assms])
next
  fix p
  assume p: "p \<in> set (zip (printed_indices env)
                         (stdout_writes (trace (list_audio_devices_main env))))"
  obtain i l where il: "p = (i, l)"
    by (cases p)
  from p il main_writes_zip [OF assms, of i l]
  have i: "i \<in> set (printed_indices env)" and l: "l = line_for env i"
    by simp_all
  from printed_line [OF i] obtain info where
    info: "Pa_GetDeviceInfo env i = Some info" and
    line: "line_for env i = code_line i (PaDeviceInfo.name info) (host_api_name env info)
                              (i = Pa_GetDefaultOutputDevice env)"
    by blast
  have "Pa_GetDeviceInfo env i = Some info \<and>
        l = code_line i (PaDeviceInfo.name info) (host_api_name env info)
              (i = Pa_GetDefaultOutputDevice env) \<and>
        (length (PaDeviceInfo.name info) \<le> 40 \<longrightarrow>
           l = spec_line i (PaDeviceInfo.name info) (host_api_name env info)
                 (i = Pa_GetDefaultOutputDevice env))"
    using info line l by (simp add: code_line_short)
  then show "case p of (i, l) \<Rightarrow>
      \<exists>info. Pa_GetDeviceInfo env i = Some info \<and>
        l = code_line i (PaDeviceInfo.name info) (host_api_name env info)
              (i = Pa_GetDefaultOutputDevice env) \<and>
        (length (PaDeviceInfo.name info) \<le> 40 \<longrightarrow>
           l = spec_line i (PaDeviceInfo.name info) (host_api_name env info)
                 (i = Pa_GetDefaultOutputDevice env))"
    unfolding il by auto
qed

text \<open>The library \<open>studio_env\<close>: both lines, the short name in the stated format.\<close>

theorem lister_line_format_witness:
  "Pa_Initialize studio_env = paNoError \<and>
   length (stdout_writes (trace (list_audio_devices_main studio_env))) =
     length (printed_indices studio_env) \<and>
   printed_indices studio_env = [0, 2] \<and>
   stdout_writes (trace (list_audio_devices_main studio_env)) =
     [code_line 0 ''Speakers'' ''Core Audio'' False,
      code_line 2 ''USB Audio Interface Professional Edition 2'' ''?'' True] \<and>
   code_line 0 ''Speakers'' ''Core Audio'' False =
     spec_line 0 ''Speakers'' ''Core Audio'' False \<and>
   code_line 0 ''Speakers'' ''Core Audio'' False =
     ''  0  Speakers                                  [Core Audio]\<newline>''"
proof -
  have init: "Pa_Initialize studio_env = paNoError"
    by (simp add: studio_env_def paNoError_def)
  have len: "length (stdout_writes (trace (list_audio_devices_main studio_env))) =
     length (printed_indices studio_env)"
    using lister_line_format [OF init] by (rule conjunct1)
  have printed: "printed_indices studio_env = [0, 2]"
    by code_simp
  have out: "stdout_writes (trace (list_audio_devices_main studio_env)) =
     [code_line 0 ''Speakers'' ''Core Audio'' False,
      code_line 2 ''USB Audio Interface Professional Edition 2'' ''?'' True]"
    by code_simp
  have short: "code_line 0 ''Speakers'' ''Core Audio'' False =
     spec_line 0 ''Speakers'' ''Core Audio'' False"
    by code_simp
  have shown: "code_line 0 ''Speakers'' ''Core Audio'' False =
     ''  0  Speakers                                  [Core Audio]\<newline>''"
    by code_simp
  from init len printed out short shown show ?thesis
    by (intro conjI)
qed

text \<open>
  C4. After a successful initialization, if the host-API lookup of a printed device
  returns null, the bracketed field of its line is exactly \<^verbatim>\<open>[?]\<close>. Whether a device is
  printed does not depend on that lookup, and the run ends with status 0 and nothing on
  stderr.
\<close>

theorem lister_host_api_fallback:
  assumes "Pa_Initialize env = paNoError"
  shows "length (stdout_writes (trace (list_audio_devices_main env))) =
           length (printed_indices env) \<and>
         (\<forall>(i, l) \<in> set (zip (printed_indices env)
                            (stdout_writes (trace (list_audio_devices_main env)))).
            \<forall>info. Pa_GetDeviceInfo env i = Some info \<and>
                   Pa_GetHostApiInfo env (hostApi info) = None \<longrightarrow>
              l = replicate (3 - length (dec_int (sint i))) CHR '' '' @ dec_int (sint i) @
                  ''  '' @ PaDeviceInfo.name info @
                  replicate (40 - length (PaDeviceInfo.name info)) CHR '' '' @
                  ''  [?]'' @ (if i = Pa_GetDefaultOutputDevice env then '' *'' else []) @
                  ''\<newline>'') \<and>
         (\<forall>i info. 0 \<le>s i \<and> i <s Pa_GetDeviceCount env \<and>
                   Pa_GetDeviceInfo env i = Some info \<and> 1 \<le>s maxOutputChannels info \<longrightarrow>
                   i \<in> set (printed_indices env)) \<and>
         (\<not> Pa_GetDeviceCount env <s 0 \<longrightarrow>
            stderr_writes (trace (list_audio_devices_main env)) = [] \<and>
            status (list_audio_devices_main env) = 0)"
proof (intro conjI ballI allI impI)
  show "length (stdout_writes (trace (list_audio_devices_main env))) =
          length (printed_indices env)"
    by (simp add: main_stdout [OF assms])
next
  fix p
  assume p: "p \<in> set (zip (printed_indices env)
                         (stdout_writes (trace (list_audio_devices_main env))))"
  obtain i l where il: "p = (i, l)"
    by (cases p)
  from p il main_writes_zip [OF assms, of i l]
  have i: "i \<in> set (printed_indices env)" and l: "l = line_for env i"
    by simp_all
  from printed_line [OF i] l
  have "\<forall>info. Pa_GetDeviceInfo env i = Some info \<and>
                Pa_GetHostApiInfo env (hostApi info) = None \<longrightarrow>
           l = replicate (3 - length (dec_int (sint i))) CHR '' '' @ dec_int (sint i) @
               ''  '' @ PaDeviceInfo.name info @
               replicate (40 - length (PaDeviceInfo.name info)) CHR '' '' @
               ''  [?]'' @ (if i = Pa_GetDefaultOutputDevice env then '' *'' else []) @
               ''\<newline>''"
    by (auto simp: code_line_def host_api_name_def)
  then show "case p of (i, l) \<Rightarrow>
      \<forall>info. Pa_GetDeviceInfo env i = Some info \<and>
             Pa_GetHostApiInfo env (hostApi info) = None \<longrightarrow>
        l = replicate (3 - length (dec_int (sint i))) CHR '' '' @ dec_int (sint i) @
            ''  '' @ PaDeviceInfo.name info @
            replicate (40 - length (PaDeviceInfo.name info)) CHR '' '' @
            ''  [?]'' @ (if i = Pa_GetDefaultOutputDevice env then '' *'' else []) @
            ''\<newline>''"
    unfolding il by (simp only: prod.case)
next
  fix i info
  assume "0 \<le>s i \<and> i <s Pa_GetDeviceCount env \<and>
          Pa_GetDeviceInfo env i = Some info \<and> 1 \<le>s maxOutputChannels info"
  then show "i \<in> set (printed_indices env)"
    by (simp add: printed_indices_def set_device_indices output_capable_def)
next
  assume "\<not> Pa_GetDeviceCount env <s 0"
  with assms show "stderr_writes (trace (list_audio_devices_main env)) = []"
    by (rule main_stderr)
next
  assume "\<not> Pa_GetDeviceCount env <s 0"
  with assms show "status (list_audio_devices_main env) = 0"
    by (simp add: main_run)
qed

text \<open>The library \<open>studio_env\<close>: device 2 has the unknown host API 7.\<close>

theorem lister_host_api_fallback_witness:
  "Pa_Initialize studio_env = paNoError \<and>
   Pa_GetDeviceInfo studio_env 2 =
     Some \<lparr>PaDeviceInfo.name = ''USB Audio Interface Professional Edition 2'',
           hostApi = 7, maxOutputChannels = 8\<rparr> \<and>
   Pa_GetHostApiInfo studio_env 7 = None \<and>
   (2, ''  2  USB Audio Interface Professional Edition 2  [?] *\<newline>'') \<in>
     set (zip (printed_indices studio_env)
              (stdout_writes (trace (list_audio_devices_main studio_env)))) \<and>
   length (stdout_writes (trace (list_audio_devices_main studio_env))) =
     length (printed_indices studio_env) \<and>
   status (list_audio_devices_main studio_env) = 0"
proof -
  have init: "Pa_Initialize studio_env = paNoError"
    by (simp add: studio_env_def paNoError_def)
  have len: "length (stdout_writes (trace (list_audio_devices_main studio_env))) =
     length (printed_indices studio_env)"
    using lister_host_api_fallback [OF init] by (rule conjunct1)
  have info: "Pa_GetDeviceInfo studio_env 2 =
     Some \<lparr>PaDeviceInfo.name = ''USB Audio Interface Professional Edition 2'',
           hostApi = 7, maxOutputChannels = 8\<rparr>"
    by (simp add: studio_env_def)
  have api: "Pa_GetHostApiInfo studio_env 7 = None"
    by (simp add: studio_env_def)
  have line: "(2, ''  2  USB Audio Interface Professional Edition 2  [?] *\<newline>'') \<in>
     set (zip (printed_indices studio_env)
              (stdout_writes (trace (list_audio_devices_main studio_env))))"
    by code_simp
  have st: "status (list_audio_devices_main studio_env) = 0"
    by code_simp
  from init info api line len st show ?thesis
    by (intro conjI)
qed

text \<open>
  C5. If the initialization succeeds and the device count is negative, the program asks
  for the error text of the count, writes it to stderr after \<^verbatim>\<open>PortAudio error: \<close>, calls
  the teardown, returns 1 and writes nothing to stdout.
\<close>

theorem lister_enumeration_failure:
  assumes "Pa_Initialize env = paNoError" and "Pa_GetDeviceCount env <s 0"
  shows "list_audio_devices_main env =
           \<lparr>trace = [Call Initialize, Call GetDeviceCount,
                     Call (GetErrorText (Pa_GetDeviceCount env)),
                     Stderr (''PortAudio error: '' @
                             Pa_GetErrorText env (Pa_GetDeviceCount env) @ ''\<newline>''),
                     Call Terminate],
            status = 1\<rparr> \<and>
         stdout_writes (trace (list_audio_devices_main env)) = []"
  using assms
  by (simp add: list_audio_devices_main_def Let_def printf_def convert_def pad_def)

text \<open>The library \<open>count_fail_env\<close> reports the count \<open>-10000\<close>.\<close>

theorem lister_enumeration_failure_witness:
  "Pa_Initialize count_fail_env = paNoError \<and>
   Pa_GetDeviceCount count_fail_env <s 0 \<and>
   list_audio_devices_main count_fail_env =
     \<lparr>trace = [Call Initialize, Call GetDeviceCount, Call (GetErrorText (- 10000)),
               Stderr ''PortAudio error: PortAudio not initialized\<newline>'',
               Call Terminate],
      status = 1\<rparr>"
proof -
  have init: "Pa_Initialize count_fail_env = paNoError"
    by (simp add: count_fail_env_def demo_env_def paNoError_def)
  have neg: "Pa_GetDeviceCount count_fail_env <s 0"
    by (simp add: count_fail_env_def demo_env_def word_sless_alt)
  have "Pa_GetDeviceCount count_fail_env = - 10000"
    and "Pa_GetErrorText count_fail_env (- 10000) = ''PortAudio not initialized''"
    by (simp_all add: count_fail_env_def demo_env_def)
  with lister_enumeration_failure [OF init neg] init neg show ?thesis
    by simp
qed

text \<open>
  C6. If the initialization fails, the program asks for the error text, writes it to
  stderr after \<^verbatim>\<open>PortAudio init failed: \<close> and returns 1. It makes no other call into the
  library (no teardown, no enumeration) and writes nothing to stdout.
\<close>

theorem lister_initialization_failure:
  assumes "Pa_Initialize env \<noteq> paNoError"
  shows "list_audio_devices_main env =
           \<lparr>trace = [Call Initialize, Call (GetErrorText (Pa_Initialize env)),
                     Stderr (''PortAudio init failed: '' @
                             Pa_GetErrorText env (Pa_Initialize env) @ ''\<newline>'')],
            status = 1\<rparr> \<and>
         stdout_writes (trace (list_audio_devices_main env)) = [] \<and>
         calls (trace (list_audio_devices_main env)) =
           [Initialize, GetErrorText (Pa_Initialize env)]"
  using assms
  by (simp add: list_audio_devices_main_def Let_def printf_def convert_def pad_def)

text \<open>The library \<open>init_fail_env\<close> fails to start with \<open>-9999\<close>.\<close>

theorem lister_initialization_failure_witness:
  "Pa_Initialize init_fail_env \<noteq> paNoError \<and>
   list_audio_devices_main init_fail_env =
     \<lparr>trace = [Call Initialize, Call (GetErrorText (- 9999)),
               Stderr ''PortAudio init failed: Unanticipated host error\<newline>''],
      status = 1\<rparr>"
proof -
  have init: "Pa_Initialize init_fail_env \<noteq> paNoError"
    by (simp add: init_fail_env_def demo_env_def paNoError_def)
  have "Pa_Initialize init_fail_env = - 9999"
    and "Pa_GetErrorText init_fail_env (- 9999) = ''Unanticipated host error''"
    by (simp_all add: init_fail_env_def demo_env_def)
  with lister_initialization_failure [OF init] init show ?thesis
    by simp
qed

text \<open>
  C7. After a successful initialization, on the enumeration-failure path and on the
  normal path alike, the teardown is called exactly once and is the last thing the run
  does; on the normal path the exit status is 0.
\<close>

theorem lister_scoped_release:
  assumes "Pa_Initialize env = paNoError"
  shows "count_list (trace (list_audio_devices_main env)) (Call Terminate) = 1 \<and>
         last (trace (list_audio_devices_main env)) = Call Terminate \<and>
         hd (trace (list_audio_devices_main env)) = Call Initialize \<and>
         (\<not> Pa_GetDeviceCount env <s 0 \<longrightarrow> status (list_audio_devices_main env) = 0)"
proof (cases "Pa_GetDeviceCount env <s 0")
  case True
  with assms show ?thesis
    by (simp add: list_audio_devices_main_def Let_def)
next
  case False
  show ?thesis
    by (simp add: main_run [OF assms False] count_terminate_loop False)
qed

text \<open>The whole run on \<open>demo_env\<close>.\<close>

theorem lister_scoped_release_witness:
  "Pa_Initialize demo_env = paNoError \<and>
   count_list (trace (list_audio_devices_main demo_env)) (Call Terminate) = 1 \<and>
   trace (list_audio_devices_main demo_env) =
     [Call Initialize, Call GetDeviceCount, Call GetDefaultOutputDevice,
      Call (GetDeviceInfo 0), Call (GetHostApiInfo 0),
      Stdout ''  0  Speakers                                  [Core Audio] *\<newline>'',
      Call (GetDeviceInfo 1), Call Terminate] \<and>
   status (list_audio_devices_main demo_env) = 0"
proof -
  have init: "Pa_Initialize demo_env = paNoError"
    by (simp add: demo_env_def paNoError_def)
  have once: "count_list (trace (list_audio_devices_main demo_env)) (Call Terminate) = 1"
    using lister_scoped_release [OF init] by (rule conjunct1)
  have tr: "trace (list_audio_devices_main demo_env) =
     [Call Initialize, Call GetDeviceCount, Call GetDefaultOutputDevice,
      Call (GetDeviceInfo 0), Call (GetHostApiInfo 0),
      Stdout ''  0  Speakers                                  [Core Audio] *\<newline>'',
      Call (GetDeviceInfo 1), Call Terminate]"
    by code_simp
  have st: "status (list_audio_devices_main demo_env) = 0"
    by code_simp
  from init once tr st show ?thesis
    by (intro conjI)
qed

section \<open>Semaphore Unlinker: the claims\<close>

text \<open>
  C8. Invoked with a program name and a number of arguments other than one, the program
  writes \<^verbatim>\<open>Usage: <program> /name\<close> and a newline to stderr, returns 1 and does not call
  \<^verbatim>\<open>sem_unlink\<close>.
\<close>

theorem unlinker_usage_error:
  assumes "argv = prog # rest" and "length argv \<noteq> 2"
  shows "sem_unlink_main os argv =
           \<lparr>trace = [Stderr (''Usage: '' @ prog @ '' /name\<newline>'')], status = 1\<rparr> \<and>
         calls (trace (sem_unlink_main os argv)) = []"
  using assms
  by (simp add: sem_unlink_main_def argv_at_def printf_def convert_def pad_def)

text \<open>Two arguments, and none.\<close>

theorem unlinker_usage_error_witness:
  "length [''sem_unlink'', ''/a'', ''/b''] \<noteq> 2 \<and>
   sem_unlink_main demo_os [''sem_unlink'', ''/a'', ''/b''] =
     \<lparr>trace = [Stderr ''Usage: sem_unlink /name\<newline>''], status = 1\<rparr> \<and>
   sem_unlink_main demo_os [''sem_unlink''] =
     \<lparr>trace = [Stderr ''Usage: sem_unlink /name\<newline>''], status = 1\<rparr>"
  using unlinker_usage_error [of "[''sem_unlink'', ''/a'', ''/b'']" "''sem_unlink''"
      "[''/a'', ''/b'']" demo_os]
    unlinker_usage_error [of "[''sem_unlink'']" "''sem_unlink''" "[]" demo_os]
  by simp

text \<open>
  C9. Invoked with exactly one argument whose removal succeeds, the program writes
  \<^verbatim>\<open>Unlinked semaphore <name>\<close> and a newline to stdout, with the argument verbatim, and
  returns 0.
\<close>

theorem unlinker_success:
  assumes "length argv = 2" and "sem_unlink os (argv ! 1) = 0"
  shows "sem_unlink_main os argv =
           \<lparr>trace = [Call (SemUnlink (argv ! 1)),
                     Stdout (''Unlinked semaphore '' @ argv ! 1 @ ''\<newline>'')],
            status = 0\<rparr> \<and>
         stdout_writes (trace (sem_unlink_main os argv)) =
           [''Unlinked semaphore '' @ argv ! 1 @ ''\<newline>'']"
  using assms
  by (simp add: sem_unlink_main_def printf_def convert_def pad_def)

text \<open>The example of the specification: \<^verbatim>\<open>/test\<close>.\<close>

theorem unlinker_success_witness:
  "length [''sem_unlink'', ''/test''] = 2 \<and>
   sem_unlink demo_os ([''sem_unlink'', ''/test''] ! 1) = 0 \<and>
   stdout_writes (trace (sem_unlink_main demo_os [''sem_unlink'', ''/test''])) =
     [''Unlinked semaphore /test\<newline>''] \<and>
   status (sem_unlink_main demo_os [''sem_unlink'', ''/test'']) = 0"
proof -
  have ok: "sem_unlink demo_os ([''sem_unlink'', ''/test''] ! 1) = 0"
    by (simp add: demo_os_def)
  have len: "length [''sem_unlink'', ''/test''] = 2"
    by simp
  from unlinker_success [OF len ok] ok show ?thesis
    by simp
qed

text \<open>
  C10 as stated requires the message on stderr to refer to the semaphore name. Removing
  \<^verbatim>\<open>/missing\<close>, which does not exist, writes the operation name and the error text only:
  the name does not occur in the message.
\<close>

theorem unlinker_removal_failure_counterexample:
  "sem_unlink demo_os ''/missing'' \<noteq> 0 \<and>
   stderr_writes (trace (sem_unlink_main demo_os [''sem_unlink'', ''/missing''])) =
     [''sem_unlink: No such file or directory\<newline>''] \<and>
   \<not> sublist ''/missing''
       (concat (stderr_writes (trace (sem_unlink_main demo_os [''sem_unlink'', ''/missing'']))))"
  by code_simp

text \<open>
  C10, amended. Invoked with exactly one argument whose removal fails, the program
  returns 1 and writes to stderr the operation name \<^verbatim>\<open>sem_unlink\<close>, a colon and a space,
  the system's text for the error, and a newline, and nothing else: the program does not
  insert the semaphore name into the message. Nothing is written to stdout.
\<close>

theorem unlinker_removal_failure:
  assumes "length argv = 2" and "sem_unlink os (argv ! 1) \<noteq> 0"
  shows "sem_unlink_main os argv =
           \<lparr>trace = [Call (SemUnlink (argv ! 1)),
                     Stderr (''sem_unlink: '' @ strerror os (errno os (argv ! 1)) @
                             ''\<newline>'')],
            status = 1\<rparr> \<and>
         stderr_writes (trace (sem_unlink_main os argv)) =
           [''sem_unlink: '' @ strerror os (errno os (argv ! 1)) @ ''\<newline>''] \<and>
         stdout_writes (trace (sem_unlink_main os argv)) = []"
  using assms
  by (simp add: sem_unlink_main_def perror_def)

text \<open>Removing \<^verbatim>\<open>/missing\<close> fails with \<^verbatim>\<open>ENOENT\<close>.\<close>

theorem unlinker_removal_failure_witness:
  "length [''sem_unlink'', ''/missing''] = 2 \<and>
   sem_unlink demo_os ([''sem_unlink'', ''/missing''] ! 1) \<noteq> 0 \<and>
   sem_unlink_main demo_os [''sem_unlink'', ''/missing''] =
     \<lparr>trace = [Call (SemUnlink ''/missing''),
               Stderr ''sem_unlink: No such file or directory\<newline>''],
      status = 1\<rparr>"
proof -
  have bad: "sem_unlink demo_os ([''sem_unlink'', ''/missing''] ! 1) \<noteq> 0"
    by (simp add: demo_os_def)
  have len: "length [''sem_unlink'', ''/missing''] = 2"
    by simp
  have "strerror demo_os (errno demo_os ''/missing'') = ''No such file or directory''"
    by (simp add: demo_os_def)
  with unlinker_removal_failure [OF len bad] bad show ?thesis
    by simp
qed

end
